theory Spec2Isabelle
  imports Main "HOL-Library.Word"
begin


section \<open>Python values\<close>

text \<open>
  The wrapper is dynamically typed. The arguments of \<open>set_static_ip\<close> are passed on as
  they come, and \<open>dns or gateway\<close> looks at the truth value of \<open>dns\<close>, so the four fields
  of an IP configuration are Python values: \<open>None\<close>, a bool, an int or a str. A str is a
  \<open>string\<close> holding its UTF-8 encoding (the representation MicroPython uses).
\<close>

datatype pyval = PyNone | PyBool bool | PyInt int | PyStr string

fun truthy :: "pyval \<Rightarrow> bool" where
  "truthy PyNone = False"
| "truthy (PyBool b) = b"
| "truthy (PyInt i) = (i \<noteq> 0)"
| "truthy (PyStr s) = (s \<noteq> [])"

text \<open>Python's \<open>a or b\<close>: \<open>a\<close> when it is truthy, else \<open>b\<close>.\<close>

definition py_or :: "pyval \<Rightarrow> pyval \<Rightarrow> pyval" where
  "py_or a b = (if truthy a then a else b)"

text \<open>\<open>str(x)\<close>, as an f-string field formats a value.\<close>

fun dec_digits :: "nat \<Rightarrow> string" where
  "dec_digits n =
     (if n < 10 then [''0123456789'' ! n]
      else dec_digits (n div 10) @ [''0123456789'' ! (n mod 10)])"

declare dec_digits.simps [simp del]

definition str_int :: "int \<Rightarrow> string" where
  "str_int i = (if i < 0 then CHR ''-'' # dec_digits (nat (- i)) else dec_digits (nat i))"

fun py_str :: "pyval \<Rightarrow> string" where
  "py_str PyNone = ''None''"
| "py_str (PyBool b) = (if b then ''True'' else ''False'')"
| "py_str (PyInt i) = str_int i"
| "py_str (PyStr s) = s"

text \<open>
  The exceptions the collaborators raise. All of them derive from \<open>Exception\<close>, which is
  what the handler in \<open>ping\<close> catches.
\<close>

datatype exn = OSError | IndexError | UnicodeError

section \<open>Bytes and UTF-8\<close>

text \<open>
  \<open>bytes.decode('utf-8')\<close> is a builtin of the runtime, and the wrapper needs MicroPython
  (it imports \<open>network\<close>). The decoder reads the bytes in one pass: a byte below 80 stands
  alone, a lead byte C0..DF asks for one continuation byte, E0..EF for two and F0..F7 for
  three, a continuation byte is 80..BF, and no byte from F8 on can lead. It raises
  \<open>UnicodeError\<close> when a continuation byte is missing or stands where none is asked for,
  and gives the text otherwise. It does not look at the code point, so it lets overlong
  forms and surrogates pass.
\<close>

type_synonym byte = "8 word"

definition utf8_cont :: "byte \<Rightarrow> bool" where
  "utf8_cont c = (0x80 \<le> unat c \<and> unat c \<le> 0xBF)"

definition utf8_need :: "byte \<Rightarrow> nat" where
  "utf8_need c = (if unat c < 0xE0 then 1 else if unat c < 0xF0 then 2 else 3)"

text \<open>The first argument is the number of continuation bytes still asked for.\<close>

fun utf8_scan :: "nat \<Rightarrow> byte list \<Rightarrow> bool" where
  "utf8_scan need [] = (need = 0)"
| "utf8_scan need (c # cs) =
     (if 0 < need then (if utf8_cont c then utf8_scan (need - 1) cs else False)
      else if 0xC0 \<le> unat c then
        (if 0xF8 \<le> unat c then False else utf8_scan (utf8_need c) cs)
      else if 0x80 \<le> unat c then False
      else utf8_scan 0 cs)"

definition utf8_check :: "byte list \<Rightarrow> bool" where
  "utf8_check bs = utf8_scan 0 bs"

definition utf8_text :: "byte list \<Rightarrow> string" where
  "utf8_text bs = map (\<lambda>b. char_of (unat b)) bs"

definition decode_utf8 :: "byte list \<Rightarrow> exn + string" where
  "decode_utf8 bs = (if utf8_check bs then Inr (utf8_text bs) else Inl UnicodeError)"

section \<open>The platform\<close>

text \<open>
  Modelled from the spec: the collaborators of the wrapper (the \<open>network\<close>, \<open>time\<close>
  and \<open>socket\<close> modules of the host runtime) are not part of the repository. A WLAN
  handle carries the attributes the spec lists: the active flag, the IP configuration
  tuple and the configuration options. \<open>associating\<close> records that an association was
  requested by \<open>connect\<close> and not cancelled by \<open>disconnect\<close>.
\<close>

type_synonym ipconfig = "pyval \<times> pyval \<times> pyval \<times> pyval"

type_synonym sockaddr = "string \<times> int"

type_synonym addrinfo = "int \<times> int \<times> int \<times> string \<times> sockaddr"

text \<open>A scan entry: (ssid, bssid, channel, RSSI, security, hidden).\<close>

type_synonym scan_entry = "byte list \<times> byte list \<times> int \<times> int \<times> int \<times> int"

record wlan =
  active :: bool
  associating :: bool
  ifconfig :: ipconfig
  cfg_essid :: string
  cfg_password :: "string option"
  cfg_authmode :: int
  cfg_channel :: int
  cfg_max_clients :: int

text \<open>
  Every call the wrapper makes on an interface handle or on the socket layer, in the
  order it is made.
\<close>

datatype call =
    StaActive bool
  | ApActive bool
  | StaConnect string string
  | StaIsConnected
  | StaDisconnect
  | StaIfconfigGet
  | StaIfconfigSet ipconfig
  | StaConfigGet string
  | StaScan
  | ApConfig string "string option" int int int
  | GetAddrInfo string int
  | SockNew
  | SockSetTimeout nat int
  | SockConnect nat sockaddr
  | SockClose nat

text \<open>
  Modelled from the spec: what the wrapper cannot decide is the environment's. Given the
  commands issued so far and the time of the clock, the environment says whether a
  requested association is up (\<open>link\<close>), what a scan finds, what name resolution
  answers, whether a socket can be had and whether a TCP connection to an address is
  established (\<open>None\<close>) or fails with an exception.
\<close>

record env =
  link :: "call list \<Rightarrow> int \<Rightarrow> bool"
  scan_result :: "call list \<Rightarrow> scan_entry list"
  resolve :: "call list \<Rightarrow> string \<Rightarrow> int \<Rightarrow> exn + addrinfo list"
  sock_open :: "call list \<Rightarrow> exn + nat"
  sock_reach :: "call list \<Rightarrow> sockaddr \<Rightarrow> exn option"

text \<open>
  The state the wrapper acts on: the two interface handles, the clock in whole seconds
  (\<open>time.time()\<close> of the runtime), the calls made so far and the lines printed.
\<close>

record world =
  sta_if :: wlan
  ap_if :: wlan
  clock :: int
  calls :: "call list"
  stdout :: "string list"

definition log_call :: "call \<Rightarrow> world \<Rightarrow> world" where
  "log_call c w = w\<lparr>calls := calls w @ [c]\<rparr>"

text \<open>
  Modelled from the spec: the three reads of the station handle are queries. A query is
  logged like every call, but the environment reacts to commands and to the passing of
  time only: its answers are a function of the calls that are not queries.
\<close>

fun query :: "call \<Rightarrow> bool" where
  "query StaIsConnected = True"
| "query StaIfconfigGet = True"
| "query (StaConfigGet name) = True"
| "query c = False"

definition history :: "world \<Rightarrow> call list" where
  "history w = filter (\<lambda>c. \<not> query c) (calls w)"

definition print_line :: "string \<Rightarrow> world \<Rightarrow> world" where
  "print_line s w = w\<lparr>stdout := stdout w @ [s]\<rparr>"

text \<open>Modelled from the spec: the methods of the station handle.\<close>

definition sta_active :: "bool \<Rightarrow> world \<Rightarrow> world" where
  "sta_active b w = log_call (StaActive b) (w\<lparr>sta_if := (sta_if w)\<lparr>active := b\<rparr>\<rparr>)"

definition sta_connect :: "string \<Rightarrow> string \<Rightarrow> world \<Rightarrow> world" where
  "sta_connect ssid password w =
     log_call (StaConnect ssid password)
       (w\<lparr>sta_if := (sta_if w)\<lparr>associating := True, cfg_essid := ssid\<rparr>\<rparr>)"

definition sta_isconnected :: "env \<Rightarrow> world \<Rightarrow> bool \<times> world" where
  "sta_isconnected E w =
     (associating (sta_if w) \<and> link E (history w) (clock w), log_call StaIsConnected w)"

definition sta_disconnect :: "world \<Rightarrow> world" where
  "sta_disconnect w =
     log_call StaDisconnect (w\<lparr>sta_if := (sta_if w)\<lparr>associating := False\<rparr>\<rparr>)"

definition sta_ifconfig_get :: "world \<Rightarrow> ipconfig \<times> world" where
  "sta_ifconfig_get w = (ifconfig (sta_if w), log_call StaIfconfigGet w)"

definition sta_ifconfig_set :: "ipconfig \<Rightarrow> world \<Rightarrow> world" where
  "sta_ifconfig_set cfg w =
     log_call (StaIfconfigSet cfg) (w\<lparr>sta_if := (sta_if w)\<lparr>ifconfig := cfg\<rparr>\<rparr>)"

definition sta_config_essid :: "world \<Rightarrow> string \<times> world" where
  "sta_config_essid w = (cfg_essid (sta_if w), log_call (StaConfigGet ''essid'') w)"

definition sta_scan :: "env \<Rightarrow> world \<Rightarrow> scan_entry list \<times> world" where
  "sta_scan E w = (scan_result E (history w), log_call StaScan w)"

text \<open>Modelled from the spec: the methods of the access point handle.\<close>

definition ap_active :: "bool \<Rightarrow> world \<Rightarrow> world" where
  "ap_active b w = log_call (ApActive b) (w\<lparr>ap_if := (ap_if w)\<lparr>active := b\<rparr>\<rparr>)"

definition ap_config :: "string \<Rightarrow> string option \<Rightarrow> int \<Rightarrow> int \<Rightarrow> int \<Rightarrow> world \<Rightarrow> world" where
  "ap_config ssid password authmode channel max_clients w =
     log_call (ApConfig ssid password authmode channel max_clients)
       (w\<lparr>ap_if := (ap_if w)\<lparr>cfg_essid := ssid, cfg_password := password,
            cfg_authmode := authmode, cfg_channel := channel,
            cfg_max_clients := max_clients\<rparr>\<rparr>)"

text \<open>
  Modelled from the spec: the clock. Time passes in \<open>time.sleep\<close> only; a call on a
  collaborator takes none.
\<close>

definition time_time :: "world \<Rightarrow> int" where
  "time_time w = clock w"

definition time_sleep :: "int \<Rightarrow> world \<Rightarrow> world" where
  "time_sleep n w = w\<lparr>clock := clock w + n\<rparr>"

text \<open>
  Modelled from the spec: the socket layer. \<open>getaddrinfo\<close>, \<open>socket\<close> and \<open>connect\<close>
  can raise; \<open>settimeout\<close> and \<open>close\<close> do not.
\<close>

definition socket_getaddrinfo :: "env \<Rightarrow> string \<Rightarrow> int \<Rightarrow> world \<Rightarrow> (exn + addrinfo list) \<times> world" where
  "socket_getaddrinfo E host port w =
     (resolve E (history w) host port, log_call (GetAddrInfo host port) w)"

definition socket_socket :: "env \<Rightarrow> world \<Rightarrow> (exn + nat) \<times> world" where
  "socket_socket E w = (sock_open E (history w), log_call SockNew w)"

definition socket_settimeout :: "nat \<Rightarrow> int \<Rightarrow> world \<Rightarrow> world" where
  "socket_settimeout s t w = log_call (SockSetTimeout s t) w"

definition socket_connect :: "env \<Rightarrow> nat \<Rightarrow> sockaddr \<Rightarrow> world \<Rightarrow> exn option \<times> world" where
  "socket_connect E s addr w = (sock_reach E (history w) addr, log_call (SockConnect s addr) w)"

definition socket_close :: "nat \<Rightarrow> world \<Rightarrow> world" where
  "socket_close s w = log_call (SockClose s) w"

section \<open>The class uwifi\<close>

text \<open>
  \<open>__init__\<close>: both handles are the platform's; the station is switched on and the
  access point off.
\<close>

definition uwifi_init :: "world \<Rightarrow> world" where
  "uwifi_init w = ap_active False (sta_active True w)"

text \<open>
  The polling loop of \<open>connect\<close>. The result is \<open>True\<close> when the loop ends because the
  station is connected and \<open>False\<close> when it returns from inside, the deadline passed.
\<close>

function connect_poll :: "env \<Rightarrow> int \<Rightarrow> int \<Rightarrow> world \<Rightarrow> bool \<times> world" where
  "connect_poll E start_time timeout w =
     (let (connected, w1) = sta_isconnected E w in
      if \<not> connected then
        if time_time w1 - start_time > timeout
        then (False, print_line ''Connection failed.'' w1)
        else connect_poll E start_time timeout (time_sleep 1 w1)
      else (True, w1))"
  by pat_completeness auto
termination
  by (relation "measure (\<lambda>(E, start_time, timeout, w). nat (timeout + 1 - (clock w - start_time)))")
     (auto simp: sta_isconnected_def log_call_def time_time_def time_sleep_def)

declare connect_poll.simps [simp del]

definition connect :: "env \<Rightarrow> string \<Rightarrow> string \<Rightarrow> int \<Rightarrow> world \<Rightarrow> bool \<times> world" where
  "connect E ssid password timeout w =
     (let w1 = print_line (''Attempting to connect to network: '' @ ssid) w;
          w2 = sta_connect ssid password w1;
          start_time = time_time w2;
          (connected, w3) = connect_poll E start_time timeout w2
      in if \<not> connected then (False, w3)
         else
           (let w4 = print_line ''Connected successfully!'' w3;
                (cfg, w5) = sta_ifconfig_get w4
            in (True, print_line (''IP address: '' @ py_str (fst cfg)) w5)))"

definition disconnect :: "env \<Rightarrow> world \<Rightarrow> world" where
  "disconnect E w =
     (let (connected, w1) = sta_isconnected E w in
      if connected then print_line ''Disconnected from the network.'' (sta_disconnect w1)
      else w1)"

definition is_connected :: "env \<Rightarrow> world \<Rightarrow> bool \<times> world" where
  "is_connected E w = sta_isconnected E w"

text \<open>The default \<open>dns=None\<close> is the argument \<open>PyNone\<close>.\<close>

definition set_static_ip :: "pyval \<Rightarrow> pyval \<Rightarrow> pyval \<Rightarrow> pyval \<Rightarrow> world \<Rightarrow> world" where
  "set_static_ip ip subnet gateway dns w =
     (let dns' = py_or dns gateway;
          w1 = sta_ifconfig_set (ip, subnet, gateway, dns') w
      in print_line (''Static IP address set to: '' @ py_str ip) w1)"

definition get_ip_config :: "world \<Rightarrow> ipconfig \<times> world" where
  "get_ip_config w = sta_ifconfig_get w"

text \<open>
  One pass through the body of the \<open>try\<close> in \<open>ping\<close>: \<open>None\<close> when it reaches
  \<open>return True\<close>, \<open>Some e\<close> when a step raises \<open>e\<close>. \<open>getaddrinfo(host, 1)[0]\<close> raises
  \<open>IndexError\<close> on an empty answer, and \<open>[-1]\<close> is the socket address of the entry.
\<close>

definition ping_attempt :: "env \<Rightarrow> string \<Rightarrow> world \<Rightarrow> exn option \<times> world" where
  "ping_attempt E host w =
     (case socket_getaddrinfo E host 1 w of
        (Inl e, w1) \<Rightarrow> (Some e, w1)
      | (Inr infos, w1) \<Rightarrow>
          (case infos of
             [] \<Rightarrow> (Some IndexError, w1)
           | info # _ \<Rightarrow>
               (let addr = snd (snd (snd (snd info))) in
                case socket_socket E w1 of
                  (Inl e, w2) \<Rightarrow> (Some e, w2)
                | (Inr s, w2) \<Rightarrow>
                    (let w3 = socket_settimeout s 1 w2 in
                     case socket_connect E s addr w3 of
                       (Some e, w4) \<Rightarrow> (Some e, w4)
                     | (None, w4) \<Rightarrow>
                         (let w5 = socket_close s w4 in
                          (None, print_line (''Received response from '' @ host) w5))))))"

text \<open>
  \<open>for _ in range(count)\<close> with the handler \<open>except Exception: pass\<close>: the argument is
  the number of passes left. The result is \<open>True\<close> when a pass returned and \<open>False\<close> when
  the range is used up.
\<close>

fun ping_loop :: "env \<Rightarrow> string \<Rightarrow> nat \<Rightarrow> world \<Rightarrow> bool \<times> world" where
  "ping_loop E host 0 w = (False, w)"
| "ping_loop E host (Suc n) w =
     (case ping_attempt E host w of
        (None, w1) \<Rightarrow> (True, w1)
      | (Some e, w1) \<Rightarrow> ping_loop E host n w1)"

definition ping :: "env \<Rightarrow> string \<Rightarrow> int \<Rightarrow> world \<Rightarrow> bool \<times> world" where
  "ping E host count w =
     (let w1 = print_line (''Pinging '' @ host @ ''...'') w;
          (found, w2) = ping_loop E host (nat count) w1
      in if found then (True, w2)
         else (False, print_line (''No response received from '' @ host @ ''.'') w2))"

text \<open>
  The loop of \<open>reconnect\<close>. The result is \<open>True\<close> when it returns from inside and \<open>False\<close>
  when the condition \<open>attempt < retry_count\<close> fails.
\<close>

function reconnect_loop ::
  "env \<Rightarrow> string \<Rightarrow> string \<Rightarrow> int \<Rightarrow> int \<Rightarrow> int \<Rightarrow> world \<Rightarrow> bool \<times> world" where
  "reconnect_loop E ssid password timeout retry_count attempt w =
     (if attempt < retry_count then
        (let w1 = print_line (''Retry '' @ str_int (attempt + 1) @ ''/'' @ str_int retry_count) w;
             (ok, w2) = connect E ssid password timeout w1
         in if ok then (True, w2)
            else reconnect_loop E ssid password timeout retry_count (attempt + 1)
                   (print_line ''Retrying...'' w2))
      else (False, w))"
  by pat_completeness auto
termination
  by (relation "measure (\<lambda>(E, ssid, password, timeout, retry_count, attempt, w).
                  nat (retry_count - attempt))") auto

declare reconnect_loop.simps [simp del]

definition reconnect :: "env \<Rightarrow> string \<Rightarrow> string \<Rightarrow> int \<Rightarrow> int \<Rightarrow> world \<Rightarrow> bool \<times> world" where
  "reconnect E ssid password timeout retry_count w =
     (let (ok, w1) = reconnect_loop E ssid password timeout retry_count 0 w in
      if ok then (True, w1)
      else (False, print_line ''Failed to connect after multiple attempts.'' w1))"

text \<open>
  The comprehension \<open>[network[0].decode('utf-8') for network in networks]\<close>: the first
  name that does not decode raises, and no list is built.
\<close>

fun decode_ssids :: "scan_entry list \<Rightarrow> exn + string list" where
  "decode_ssids [] = Inr []"
| "decode_ssids (network # networks) =
     (case decode_utf8 (fst network) of
        Inl e \<Rightarrow> Inl e
      | Inr ssid \<Rightarrow>
          (case decode_ssids networks of
             Inl e \<Rightarrow> Inl e
           | Inr ssids \<Rightarrow> Inr (ssid # ssids)))"

definition list_available_networks :: "env \<Rightarrow> world \<Rightarrow> (exn + string list) \<times> world" where
  "list_available_networks E w =
     (let w1 = print_line ''Scanning for available networks...'' w;
          (networks, w2) = sta_scan E w1
      in (decode_ssids networks, w2))"

text \<open>The defaults are \<open>password=None\<close>, \<open>authmode=4\<close>, \<open>channel=1\<close>, \<open>max_clients=4\<close>.\<close>

definition create_access_point ::
  "string \<Rightarrow> string option \<Rightarrow> int \<Rightarrow> int \<Rightarrow> int \<Rightarrow> world \<Rightarrow> world" where
  "create_access_point ssid password authmode channel max_clients w =
     (let w1 = ap_active True w;
          w2 = ap_config ssid password authmode channel max_clients w1
      in print_line (''Access Point '' @ [CHR 0x27] @ ssid @ [CHR 0x27] @ '' created successfully.'') w2)"

definition disable_access_point :: "world \<Rightarrow> world" where
  "disable_access_point w = print_line ''Access Point mode disabled.'' (ap_active False w)"

definition check_wifi_status :: "env \<Rightarrow> world \<Rightarrow> string \<times> world" where
  "check_wifi_status E w =
     (let (connected, w1) = is_connected E w in
      if connected then
        (let (name, w2) = sta_config_essid w1;
             (cfg, w3) = sta_ifconfig_get w2
         in (''Connected to '' @ name @ '' with IP '' @ py_str (fst cfg), w3))
      else (''Not connected to any network.'', w1))"

section \<open>Observations on a run\<close>

text \<open>
  What the properties below observe: how often a kind of call was made, and the worlds a
  loop passes through.
\<close>

fun is_sta_connect :: "call \<Rightarrow> bool" where
  "is_sta_connect (StaConnect ssid password) = True"
| "is_sta_connect c = False"


fun is_sock_connect :: "call \<Rightarrow> bool" where
  "is_sock_connect (SockConnect s addr) = True"
| "is_sock_connect c = False"

definition count_calls :: "(call \<Rightarrow> bool) \<Rightarrow> world \<Rightarrow> nat" where
  "count_calls P w = length (filter P (calls w))"



text \<open>
  One pass of the loop of \<open>reconnect\<close> up to the result of \<open>connect\<close>, the world in
  which pass \<open>k\<close> starts when the loop starts in \<open>w\<close> with the counter at \<open>attempt\<close>
  and no earlier pass returned, and whether the \<open>connect\<close> of pass \<open>k\<close> fails.
\<close>

definition retry_connect ::
  "env \<Rightarrow> string \<Rightarrow> string \<Rightarrow> int \<Rightarrow> int \<Rightarrow> int \<Rightarrow> world \<Rightarrow> bool \<times> world" where
  "retry_connect E ssid password timeout retry_count attempt w =
     connect E ssid password timeout
       (print_line (''Retry '' @ str_int (attempt + 1) @ ''/'' @ str_int retry_count) w)"

fun retry_world ::
  "env \<Rightarrow> string \<Rightarrow> string \<Rightarrow> int \<Rightarrow> int \<Rightarrow> int \<Rightarrow> world \<Rightarrow> nat \<Rightarrow> world" where
  "retry_world E ssid password timeout retry_count attempt w 0 = w"
| "retry_world E ssid password timeout retry_count attempt w (Suc k) =
     retry_world E ssid password timeout retry_count (attempt + 1)
       (print_line ''Retrying...''
          (snd (retry_connect E ssid password timeout retry_count attempt w))) k"

definition retry_fails ::
  "env \<Rightarrow> string \<Rightarrow> string \<Rightarrow> int \<Rightarrow> int \<Rightarrow> int \<Rightarrow> world \<Rightarrow> nat \<Rightarrow> bool" where
  "retry_fails E ssid password timeout retry_count attempt w k =
     (\<not> fst (retry_connect E ssid password timeout retry_count (attempt + int k)
              (retry_world E ssid password timeout retry_count attempt w k)))"

section \<open>Example platforms\<close>

text \<open>
  A platform fresh after reset, and environments: one where nothing is reachable, one
  where the link is up, one where the second association request comes up, one where the
  first TCP connection is refused and the later ones are accepted, and two scans.
\<close>

definition wlan0 :: wlan where
  "wlan0 = \<lparr>active = False, associating = False,
     ifconfig = (PyStr ''0.0.0.0'', PyStr ''0.0.0.0'', PyStr ''0.0.0.0'', PyStr ''0.0.0.0''),
     cfg_essid = [], cfg_password = None, cfg_authmode = 0, cfg_channel = 1,
     cfg_max_clients = 4\<rparr>"

definition world0 :: world where
  "world0 = \<lparr>sta_if = wlan0, ap_if = wlan0, clock = 0, calls = [], stdout = []\<rparr>"

definition env_down :: env where
  "env_down = \<lparr>link = (\<lambda>h t. False), scan_result = (\<lambda>h. []),
     resolve = (\<lambda>h host port. Inl OSError), sock_open = (\<lambda>h. Inl OSError),
     sock_reach = (\<lambda>h addr. Some OSError)\<rparr>"

definition env_up :: env where
  "env_up = env_down\<lparr>link := (\<lambda>h t. True)\<rparr>"

definition env_retry :: env where
  "env_retry = env_down\<lparr>link := (\<lambda>h t. 2 \<le> length (filter is_sta_connect h))\<rparr>"

definition env_second :: env where
  "env_second = env_down\<lparr>
     resolve := (\<lambda>h host port. Inr [(2, 1, 0, [], (host, port))]),
     sock_open := (\<lambda>h. Inr 3),
     sock_reach := (\<lambda>h addr. if filter is_sock_connect h = [] then Some OSError else None)\<rparr>"

text \<open>The names found are \<open>Home\<close> and \<open>Caf\<close> followed by U+00E9 in two bytes.\<close>

definition env_scan :: env where
  "env_scan = env_down\<lparr>scan_result := (\<lambda>h.
     [([0x48, 0x6F, 0x6D, 0x65], [], 6, - 40, 3, 0),
      ([0x43, 0x61, 0x66, 0xC3, 0xA9], [], 11, - 71, 4, 0)])\<rparr>"

text \<open>The second name is the two bytes FF FE; FF leads no UTF-8 sequence.\<close>

definition env_scan_bad :: env where
  "env_scan_bad = env_down\<lparr>scan_result := (\<lambda>h.
     [([0x48, 0x6F, 0x6D, 0x65], [], 6, - 40, 3, 0),
      ([0xFF, 0xFE], [], 11, - 71, 4, 0)])\<rparr>"

section \<open>The polling loop of connect\<close>

lemma connect_poll_unfold:
  "connect_poll E start_time timeout w =
     (if associating (sta_if w) \<and> link E (history w) (clock w)
      then (True, log_call StaIsConnected w)
      else if timeout < clock w - start_time
      then (False, print_line ''Connection failed.'' (log_call StaIsConnected w))
      else connect_poll E start_time timeout (time_sleep 1 (log_call StaIsConnected w)))"
  by (subst connect_poll.simps)
     (simp add: sta_isconnected_def time_time_def log_call_def)

lemma connect_poll_induct2:
  assumes step: "\<And>(E::env) start_time timeout w.
     (\<not> (associating (sta_if w) \<and> link E (history w) (clock w)) \<Longrightarrow>
      \<not> timeout < clock w - start_time \<Longrightarrow>
      P E start_time timeout (time_sleep 1 (log_call StaIsConnected w))) \<Longrightarrow>
     P E start_time timeout w"
  shows "P E start_time timeout w"
proof (induction E start_time timeout w rule: connect_poll.induct)
  case (1 E start_time timeout w)
  show ?case
  proof (rule step)
    assume a: "\<not> (associating (sta_if w) \<and> link E (history w) (clock w))"
      and b: "\<not> timeout < clock w - start_time"
    show "P E start_time timeout (time_sleep 1 (log_call StaIsConnected w))"
      using a b
      by (intro "1.IH" [of "sta_isconnected E w" False "log_call StaIsConnected w"])
         (simp_all add: sta_isconnected_def time_time_def log_call_def)
  qed
qed

lemma connect_poll_never:
  "\<forall>h t. \<not> link E h t \<Longrightarrow> fst (connect_poll E start_time timeout w) = False"
  by (induction E start_time timeout w rule: connect_poll_induct2)
     (subst connect_poll_unfold, simp)

lemma connect_poll_never_clock:
  "\<forall>h t. \<not> link E h t \<Longrightarrow> clock w - start_time \<le> timeout + 1 \<Longrightarrow>
     clock (snd (connect_poll E start_time timeout w)) = start_time + timeout + 1"
proof (induction E start_time timeout w rule: connect_poll_induct2)
  case (1 E start_time timeout w)
  show ?case
  proof (cases "timeout < clock w - start_time")
    case True
    with 1 show ?thesis
      by (subst connect_poll_unfold) (simp add: print_line_def log_call_def)
  next
    case False
    with 1 show ?thesis
      by (subst connect_poll_unfold) (simp add: time_sleep_def log_call_def)
  qed
qed

lemma connect_poll_frame:
  "sta_if (snd (connect_poll E start_time timeout w)) = sta_if w \<and>
   ap_if (snd (connect_poll E start_time timeout w)) = ap_if w \<and>
   filter is_sta_connect (calls (snd (connect_poll E start_time timeout w))) =
     filter is_sta_connect (calls w)"
proof (induction E start_time timeout w rule: connect_poll_induct2)
  case (1 E start_time timeout w)
  then show ?case
    by (subst (1 2 3) connect_poll_unfold) (simp add: time_sleep_def log_call_def print_line_def)
qed

lemma connect_never:
  "\<forall>h t. \<not> link E h t \<Longrightarrow> fst (connect E ssid password timeout w) = False"
  by (simp add: connect_def Let_def case_prod_beta connect_poll_never)

lemma connect_frame:
  "ap_if (snd (connect E ssid password timeout w)) = ap_if w \<and>
   filter is_sta_connect (calls (snd (connect E ssid password timeout w))) =
     filter is_sta_connect (calls w) @ [StaConnect ssid password]"
  by (simp add: connect_def Let_def case_prod_beta connect_poll_frame sta_connect_def
      sta_ifconfig_get_def log_call_def print_line_def)

section \<open>The loop of ping\<close>


text \<open>
  A pass returns exactly when name resolution gives an entry, a socket is had and the
  connection to the entry's address is established.
\<close>

lemma ping_attempt_returns:
  "(fst (ping_attempt E host w) = None) =
     (\<exists>info infos s.
        resolve E (history w) host 1 = Inr (info # infos) \<and>
        sock_open E (history w @ [GetAddrInfo host 1]) = Inr s \<and>
        sock_reach E (history w @ [GetAddrInfo host 1, SockNew, SockSetTimeout s 1])
          (snd (snd (snd (snd info)))) = None)"
  by (auto simp: ping_attempt_def socket_getaddrinfo_def socket_socket_def
      socket_settimeout_def socket_connect_def socket_close_def log_call_def print_line_def
      history_def Let_def split: sum.splits list.splits option.splits)









section \<open>The loop of reconnect\<close>

lemma reconnect_loop_unfold:
  "reconnect_loop E ssid password timeout retry_count attempt w =
     (if attempt < retry_count then
        (if fst (retry_connect E ssid password timeout retry_count attempt w)
         then (True, snd (retry_connect E ssid password timeout retry_count attempt w))
         else reconnect_loop E ssid password timeout retry_count (attempt + 1)
                (print_line ''Retrying...''
                   (snd (retry_connect E ssid password timeout retry_count attempt w))))
      else (False, w))"
  by (subst reconnect_loop.simps) (simp add: retry_connect_def Let_def case_prod_beta)

lemma retry_fails_0:
  "retry_fails E ssid password timeout retry_count attempt w 0 =
     (\<not> fst (retry_connect E ssid password timeout retry_count attempt w))"
  by (simp add: retry_fails_def)

lemma retry_fails_Suc:
  "retry_fails E ssid password timeout retry_count attempt w (Suc k) =
     retry_fails E ssid password timeout retry_count (attempt + 1)
       (print_line ''Retrying...''
          (snd (retry_connect E ssid password timeout retry_count attempt w))) k"
  by (simp add: retry_fails_def add.assoc)

lemma reconnect_loop_all_fail:
  "(\<And>k. k < n \<Longrightarrow> retry_fails E ssid password timeout retry_count attempt w k) \<Longrightarrow>
   n = nat (retry_count - attempt) \<Longrightarrow>
     reconnect_loop E ssid password timeout retry_count attempt w =
       (False, retry_world E ssid password timeout retry_count attempt w n)"
proof (induction n arbitrary: attempt w)
  case 0
  then show ?case by (subst reconnect_loop_unfold) simp
next
  case (Suc n)
  let ?r = "retry_connect E ssid password timeout retry_count attempt w"
  let ?w' = "print_line ''Retrying...'' (snd ?r)"
  have lt: "attempt < retry_count" using Suc.prems(2) by simp
  have f: "\<not> fst ?r" using Suc.prems(1) [of 0] by (simp add: retry_fails_0)
  have "reconnect_loop E ssid password timeout retry_count (attempt + 1) ?w' =
          (False, retry_world E ssid password timeout retry_count (attempt + 1) ?w' n)"
  proof (rule Suc.IH)
    show "n = nat (retry_count - (attempt + 1))" using Suc.prems(2) by simp
    show "retry_fails E ssid password timeout retry_count (attempt + 1) ?w' k" if "k < n" for k
      using Suc.prems(1) [of "Suc k"] that by (simp add: retry_fails_Suc)
  qed
  then show ?case using lt f by (subst reconnect_loop_unfold) simp
qed

lemma reconnect_loop_first_success:
  "int k < retry_count - attempt \<Longrightarrow>
   (\<And>i. i < k \<Longrightarrow> retry_fails E ssid password timeout retry_count attempt w i) \<Longrightarrow>
   \<not> retry_fails E ssid password timeout retry_count attempt w k \<Longrightarrow>
     reconnect_loop E ssid password timeout retry_count attempt w =
       (True, snd (retry_connect E ssid password timeout retry_count (attempt + int k)
                     (retry_world E ssid password timeout retry_count attempt w k)))"
proof (induction k arbitrary: attempt w)
  case 0
  then show ?case by (subst reconnect_loop_unfold) (simp add: retry_fails_0)
next
  case (Suc k)
  let ?r = "retry_connect E ssid password timeout retry_count attempt w"
  let ?w' = "print_line ''Retrying...'' (snd ?r)"
  have lt: "attempt < retry_count" using Suc.prems(1) by simp
  have f: "\<not> fst ?r" using Suc.prems(2) [of 0] by (simp add: retry_fails_0)
  have "reconnect_loop E ssid password timeout retry_count (attempt + 1) ?w' =
          (True, snd (retry_connect E ssid password timeout retry_count (attempt + 1 + int k)
                        (retry_world E ssid password timeout retry_count (attempt + 1) ?w' k)))"
  proof (rule Suc.IH)
    show "int k < retry_count - (attempt + 1)" using Suc.prems(1) by simp
    show "\<not> retry_fails E ssid password timeout retry_count (attempt + 1) ?w' k"
      using Suc.prems(3) by (simp add: retry_fails_Suc)
    show "retry_fails E ssid password timeout retry_count (attempt + 1) ?w' i" if "i < k" for i
      using Suc.prems(2) [of "Suc i"] that by (simp add: retry_fails_Suc)
  qed
  then show ?case using lt f by (subst reconnect_loop_unfold) (simp add: add.assoc)
qed

lemma retry_connect_count:
  "count_calls is_sta_connect (snd (retry_connect E ssid password timeout retry_count attempt w)) =
     count_calls is_sta_connect w + 1"
  by (simp add: retry_connect_def count_calls_def connect_frame print_line_def)

lemma retry_world_count:
  "count_calls is_sta_connect (retry_world E ssid password timeout retry_count attempt w k) =
     count_calls is_sta_connect w + k"
proof (induction k arbitrary: attempt w)
  case 0
  show ?case by simp
next
  case (Suc k)
  have "count_calls is_sta_connect
          (print_line ''Retrying...''
             (snd (retry_connect E ssid password timeout retry_count attempt w))) =
        count_calls is_sta_connect w + 1"
    using retry_connect_count [of E ssid password timeout retry_count attempt w]
    by (simp add: count_calls_def print_line_def)
  then show ?case by (simp add: Suc.IH)
qed

lemma retry_fails_never:
  "\<forall>h t. \<not> link E h t \<Longrightarrow> retry_fails E ssid password timeout retry_count attempt w k"
  by (simp add: retry_fails_def retry_connect_def connect_never)

section \<open>The scan\<close>

lemma decode_utf8_isl:
  "isl (decode_utf8 bs) = (\<not> utf8_check bs)"
  by (simp add: decode_utf8_def)

lemma decode_ssids_valid:
  "list_all (\<lambda>network. \<not> isl (decode_utf8 (fst network))) networks \<Longrightarrow>
     decode_ssids networks = Inr (map (\<lambda>network. utf8_text (fst network)) networks)"
  by (induction networks) (simp_all add: decode_utf8_def split: if_splits)

section \<open>The claims\<close>

text \<open>
  C1. For every timeout \<open>\<ge> 0\<close>: when the station never reports connected, \<open>connect\<close>
  returns \<open>False\<close> (a value, not an exception), and the time that has passed on the clock
  when it returns is \<open>timeout + 1\<close> seconds, which is within one polling interval of one
  second of \<open>timeout\<close>. The loop is a total function, so the call returns. Timeouts are
  whole seconds, and the clock is the one of the model: time passes in \<open>time.sleep(1)\<close>.
\<close>

theorem connect_timeout:
  assumes "0 \<le> timeout" and "\<forall>h t. \<not> link E h t"
  shows "fst (connect E ssid password timeout w) = False \<and>
         clock (snd (connect E ssid password timeout w)) - clock w = timeout + 1 \<and>
         \<bar>clock (snd (connect E ssid password timeout w)) - clock w - timeout\<bar> \<le> 1"
proof -
  let ?w2 = "sta_connect ssid password
               (print_line (''Attempting to connect to network: '' @ ssid) w)"
  have c: "clock ?w2 = clock w"
    by (simp add: sta_connect_def log_call_def print_line_def)
  have r: "fst (connect_poll E (time_time ?w2) timeout ?w2) = False"
    using assms(2) by (rule connect_poll_never)
  have "clock (snd (connect_poll E (clock ?w2) timeout ?w2)) = clock ?w2 + timeout + 1"
    using assms by (intro connect_poll_never_clock) simp_all
  then have e: "clock (snd (connect E ssid password timeout w)) = clock w + timeout + 1"
    using r c by (simp add: connect_def Let_def case_prod_beta time_time_def)
  show ?thesis
    using e connect_never [OF assms(2)] by simp
qed

theorem connect_timeout_witness:
  "(0::int) \<le> 2 \<and> (\<forall>h t. \<not> link env_down h t) \<and>
   fst (connect env_down ''home'' ''secret'' 2 world0) = False \<and>
   clock (snd (connect env_down ''home'' ''secret'' 2 world0)) - clock world0 = 3"
  using connect_timeout [of 2 env_down "''home''" "''secret''" world0]
  by (simp add: env_down_def)

text \<open>
  C2. For every \<open>retry_count \<ge> 1\<close>: when the \<open>connect\<close> of pass \<open>k\<close> is the first that
  succeeds, \<open>reconnect\<close> returns \<open>True\<close> and the station's \<open>connect\<close> has been called
  \<open>k + 1\<close> times; when every \<open>connect\<close> fails, and so when the station never reports
  connected, it returns \<open>False\<close> and the station's \<open>connect\<close> has been called exactly
  \<open>retry_count\<close> times.
\<close>

theorem reconnect_attempts:
  assumes "1 \<le> retry_count"
  shows "(\<forall>k<nat retry_count.
            (\<forall>i<k. retry_fails E ssid password timeout retry_count 0 w i) \<and>
            \<not> retry_fails E ssid password timeout retry_count 0 w k \<longrightarrow>
            fst (reconnect E ssid password timeout retry_count w) = True \<and>
            count_calls is_sta_connect (snd (reconnect E ssid password timeout retry_count w)) =
              count_calls is_sta_connect w + k + 1)
       \<and> ((\<forall>k<nat retry_count. retry_fails E ssid password timeout retry_count 0 w k) \<longrightarrow>
            fst (reconnect E ssid password timeout retry_count w) = False \<and>
            count_calls is_sta_connect (snd (reconnect E ssid password timeout retry_count w)) =
              count_calls is_sta_connect w + nat retry_count)
       \<and> ((\<forall>h t. \<not> link E h t) \<longrightarrow>
            fst (reconnect E ssid password timeout retry_count w) = False \<and>
            count_calls is_sta_connect (snd (reconnect E ssid password timeout retry_count w)) =
              count_calls is_sta_connect w + nat retry_count)"
proof -
  have 1: "fst (reconnect E ssid password timeout retry_count w) = True \<and>
           count_calls is_sta_connect (snd (reconnect E ssid password timeout retry_count w)) =
             count_calls is_sta_connect w + k + 1"
    if "k < nat retry_count" "\<forall>i<k. retry_fails E ssid password timeout retry_count 0 w i"
       "\<not> retry_fails E ssid password timeout retry_count 0 w k" for k
  proof -
    have "reconnect_loop E ssid password timeout retry_count 0 w =
            (True, snd (retry_connect E ssid password timeout retry_count (0 + int k)
                          (retry_world E ssid password timeout retry_count 0 w k)))"
      using that by (intro reconnect_loop_first_success) auto
    then have "reconnect E ssid password timeout retry_count w =
            (True, snd (retry_connect E ssid password timeout retry_count (0 + int k)
                          (retry_world E ssid password timeout retry_count 0 w k)))"
      by (simp add: reconnect_def)
    then show ?thesis
      by (simp add: retry_connect_count retry_world_count)
  qed
  have 2: "fst (reconnect E ssid password timeout retry_count w) = False \<and>
           count_calls is_sta_connect (snd (reconnect E ssid password timeout retry_count w)) =
             count_calls is_sta_connect w + nat retry_count"
    if "\<forall>k<nat retry_count. retry_fails E ssid password timeout retry_count 0 w k"
  proof -
    have "reconnect_loop E ssid password timeout retry_count 0 w =
            (False, retry_world E ssid password timeout retry_count 0 w (nat retry_count))"
      using that by (intro reconnect_loop_all_fail) auto
    then have "reconnect E ssid password timeout retry_count w =
            (False, print_line ''Failed to connect after multiple attempts.''
                      (retry_world E ssid password timeout retry_count 0 w (nat retry_count)))"
      by (simp add: reconnect_def)
    then show ?thesis
      using retry_world_count [of E ssid password timeout retry_count 0 w "nat retry_count"]
      by (simp add: count_calls_def print_line_def)
  qed
  have 3: "fst (reconnect E ssid password timeout retry_count w) = False \<and>
           count_calls is_sta_connect (snd (reconnect E ssid password timeout retry_count w)) =
             count_calls is_sta_connect w + nat retry_count"
    if "\<forall>h t. \<not> link E h t"
    using that by (intro 2) (simp add: retry_fails_never)
  show ?thesis using 1 2 3 by blast
qed


theorem reconnect_attempts_witness:
  "(1::int) \<le> 3 \<and>
   retry_fails env_retry ''home'' ''secret'' 1 3 0 world0 0 \<and>
   \<not> retry_fails env_retry ''home'' ''secret'' 1 3 0 world0 1 \<and>
   fst (reconnect env_retry ''home'' ''secret'' 1 3 world0) = True \<and>
   count_calls is_sta_connect (snd (reconnect env_retry ''home'' ''secret'' 1 3 world0)) =
     count_calls is_sta_connect world0 + 2 \<and>
   (\<forall>h t. \<not> link env_down h t) \<and>
   fst (reconnect env_down ''home'' ''secret'' 1 3 world0) = False \<and>
   count_calls is_sta_connect (snd (reconnect env_down ''home'' ''secret'' 1 3 world0)) =
     count_calls is_sta_connect world0 + 3"
proof -
  have h: "(1::int) \<le> 3" by simp
  have f0: "retry_fails env_retry ''home'' ''secret'' 1 3 0 world0 0"
    by (simp add: retry_fails_def retry_connect_def connect_def connect_poll_unfold
        sta_connect_def sta_ifconfig_get_def time_time_def time_sleep_def log_call_def
        print_line_def history_def env_retry_def env_down_def world0_def Let_def)
  have f1: "\<not> retry_fails env_retry ''home'' ''secret'' 1 3 0 world0 (Suc 0)"
    by (simp add: retry_fails_def retry_connect_def connect_def connect_poll_unfold
        sta_connect_def sta_ifconfig_get_def time_time_def time_sleep_def log_call_def
        print_line_def history_def env_retry_def env_down_def world0_def Let_def)
  have p0: "\<forall>i<Suc 0. retry_fails env_retry ''home'' ''secret'' 1 3 0 world0 i"
    using f0 by simp
  have s: "fst (reconnect env_retry ''home'' ''secret'' 1 3 world0) = True \<and>
     count_calls is_sta_connect (snd (reconnect env_retry ''home'' ''secret'' 1 3 world0)) =
       count_calls is_sta_connect world0 + Suc 0 + 1"
    using reconnect_attempts [OF h, of env_retry "''home''" "''secret''" 1 world0,
        THEN conjunct1, THEN spec, of "Suc 0"] p0 f1
    by simp
  have n: "\<forall>h t. \<not> link env_down h t"
    by (simp add: env_down_def)
  have d: "fst (reconnect env_down ''home'' ''secret'' 1 3 world0) = False \<and>
     count_calls is_sta_connect (snd (reconnect env_down ''home'' ''secret'' 1 3 world0)) =
       count_calls is_sta_connect world0 + nat 3"
    using reconnect_attempts [OF h, of env_down "''home''" "''secret''" 1 world0,
        THEN conjunct2, THEN conjunct2] n
    by simp
  show ?thesis using f0 f1 s n d by simp
qed



text \<open>
  C4. For all \<open>ip\<close>, \<open>subnet\<close> and \<open>gateway\<close>: \<open>set_static_ip\<close> with \<open>dns\<close> left out
  (the default \<open>None\<close>) sets the IP configuration of the station to the tuple
  \<open>(ip, subnet, gateway, gateway)\<close>, by one call of \<open>ifconfig\<close> with that tuple.
\<close>

theorem set_static_ip_default_dns:
  "ifconfig (sta_if (set_static_ip ip subnet gateway PyNone w)) = (ip, subnet, gateway, gateway) \<and>
   calls (set_static_ip ip subnet gateway PyNone w) =
     calls w @ [StaIfconfigSet (ip, subnet, gateway, gateway)]"
  by (simp add: set_static_ip_def py_or_def sta_ifconfig_set_def log_call_def print_line_def)

text \<open>
  C5. When the station reports not connected, \<open>disconnect\<close> leaves both handles as they
  are and issues no command: the query is all it does. When the station reports
  connected, it makes exactly one call of the station's \<open>disconnect\<close>. The model has no
  exception on this path. A second \<open>disconnect\<close> right after the first changes neither
  handle and issues no command.
\<close>

theorem disconnect_frame:
  "(\<not> fst (is_connected E w) \<longrightarrow>
      sta_if (disconnect E w) = sta_if w \<and> ap_if (disconnect E w) = ap_if w \<and>
      history (disconnect E w) = history w \<and>
      disconnect E w = log_call StaIsConnected w)
   \<and> (fst (is_connected E w) \<longrightarrow>
      calls (disconnect E w) = calls w @ [StaIsConnected, StaDisconnect] \<and>
      sta_if (disconnect E w) = (sta_if w)\<lparr>associating := False\<rparr> \<and>
      ap_if (disconnect E w) = ap_if w)
   \<and> sta_if (disconnect E (disconnect E w)) = sta_if (disconnect E w)
   \<and> ap_if (disconnect E (disconnect E w)) = ap_if (disconnect E w)
   \<and> history (disconnect E (disconnect E w)) = history (disconnect E w)"
  by (simp add: disconnect_def is_connected_def sta_isconnected_def sta_disconnect_def
      log_call_def print_line_def history_def)

theorem disconnect_frame_witness:
  "\<not> fst (is_connected env_down world0) \<and>
   disconnect env_down world0 = log_call StaIsConnected world0 \<and>
   fst (is_connected env_up (sta_connect ''home'' ''secret'' world0)) \<and>
   calls (disconnect env_up (sta_connect ''home'' ''secret'' world0)) =
     [StaConnect ''home'' ''secret'', StaIsConnected, StaDisconnect]"
proof -
  have a: "\<not> fst (is_connected env_down world0)"
    by (simp add: is_connected_def sta_isconnected_def env_down_def)
  have b: "fst (is_connected env_up (sta_connect ''home'' ''secret'' world0))"
    by (simp add: is_connected_def sta_isconnected_def sta_connect_def log_call_def
        env_up_def env_down_def)
  have c: "calls (sta_connect ''home'' ''secret'' world0) = [StaConnect ''home'' ''secret'']"
    by (simp add: sta_connect_def log_call_def world0_def)
  show ?thesis
    using disconnect_frame [of env_down world0]
      disconnect_frame [of env_up "sta_connect ''home'' ''secret'' world0"] a b c
    by simp
qed

text \<open>
  C6, as amended. For every scan result whose names all decode as UTF-8,
  \<open>list_available_networks\<close> returns a list of strings of the length of the scan result
  whose i-th element is the decoded name of the i-th entry, in the order of the scan.
\<close>

theorem list_available_networks_decodes:
  "list_all (\<lambda>network. \<not> isl (decode_utf8 (fst network))) (scan_result E (history w)) \<longrightarrow>
     (\<exists>ssids. fst (list_available_networks E w) = Inr ssids \<and>
        length ssids = length (scan_result E (history w)) \<and>
        (\<forall>i<length ssids.
           decode_utf8 (fst (scan_result E (history w) ! i)) = Inr (ssids ! i)))"
proof
  let ?nets = "scan_result E (history w)"
  let ?ssids = "map (\<lambda>network. utf8_text (fst network)) ?nets"
  assume v: "list_all (\<lambda>network. \<not> isl (decode_utf8 (fst network))) ?nets"
  have r: "fst (list_available_networks E w) = decode_ssids ?nets"
    by (simp add: list_available_networks_def sta_scan_def print_line_def history_def Let_def)
  show "\<exists>ssids. fst (list_available_networks E w) = Inr ssids \<and>
          length ssids = length ?nets \<and>
          (\<forall>i<length ssids. decode_utf8 (fst (?nets ! i)) = Inr (ssids ! i))"
  proof (intro exI [of _ ?ssids] conjI)
    show "fst (list_available_networks E w) = Inr ?ssids"
      using v r by (simp add: decode_ssids_valid)
    show "length ?ssids = length ?nets" by simp
    show "\<forall>i<length ?ssids. decode_utf8 (fst (?nets ! i)) = Inr (?ssids ! i)"
      using v by (auto simp: decode_utf8_def list_all_length split: if_splits)
  qed
qed

theorem list_available_networks_decodes_witness:
  "list_all (\<lambda>network. \<not> isl (decode_utf8 (fst network)))
     (scan_result env_scan (history world0)) \<and>
   fst (list_available_networks env_scan world0) =
     Inr [''Home'', [CHR 0x43, CHR 0x61, CHR 0x66, CHR 0xC3, CHR 0xA9]]"
proof -
  have d0: "decode_utf8 [0x48, 0x6F, 0x6D, 0x65] = Inr ''Home''"
    by code_simp
  have d1: "decode_utf8 [0x43, 0x61, 0x66, 0xC3, 0xA9] =
              Inr [CHR 0x43, CHR 0x61, CHR 0x66, CHR 0xC3, CHR 0xA9]"
    by code_simp
  have v: "list_all (\<lambda>network. \<not> isl (decode_utf8 (fst network)))
             (scan_result env_scan (history world0))"
    using d0 d1 by (simp add: env_scan_def env_down_def)
  obtain ssids where s: "fst (list_available_networks env_scan world0) = Inr ssids"
    "length ssids = length (scan_result env_scan (history world0))"
    "\<forall>i<length ssids. decode_utf8 (fst (scan_result env_scan (history world0) ! i)) = Inr (ssids ! i)"
    using list_available_networks_decodes [of env_scan world0] v by blast
  have l: "length ssids = 2" using s(2) by (simp add: env_scan_def env_down_def)
  have "decode_utf8 (fst (scan_result env_scan (history world0) ! 0)) = Inr (ssids ! 0)"
    "decode_utf8 (fst (scan_result env_scan (history world0) ! 1)) = Inr (ssids ! 1)"
    using s(3) l by simp_all
  then have "ssids ! 0 = ''Home''"
    "ssids ! 1 = [CHR 0x43, CHR 0x61, CHR 0x66, CHR 0xC3, CHR 0xA9]"
    using d0 d1 by (simp_all add: env_scan_def env_down_def)
  then have "ssids = [''Home'', [CHR 0x43, CHR 0x61, CHR 0x66, CHR 0xC3, CHR 0xA9]]"
    using l by (cases ssids; cases "tl ssids") auto
  then show ?thesis using v s(1) by simp
qed

text \<open>
  The claim as stated, for every scan result, fails on a scan that finds a name that does
  not decode: FF cannot lead a sequence, and the call raises.
\<close>

theorem list_available_networks_raises:
  "fst (list_available_networks env_scan_bad world0) = Inl UnicodeError"
  by (simp add: list_available_networks_def sta_scan_def print_line_def Let_def
      env_scan_bad_def env_down_def decode_utf8_def utf8_check_def utf8_need_def
      utf8_cont_def)

text \<open>
  C7. After the constructor the station is active and the access point is not. After
  \<open>create_access_point("Test", "pass1234")\<close>, with the defaults \<open>authmode=4\<close>,
  \<open>channel=1\<close> and \<open>max_clients=4\<close>, the access point is active and its essid is
  \<open>Test\<close>. After \<open>disable_access_point()\<close> it is not active.
\<close>

theorem access_point_scenario:
  "active (sta_if (uwifi_init w)) \<and> \<not> active (ap_if (uwifi_init w)) \<and>
   active (ap_if (create_access_point ''Test'' (Some ''pass1234'') 4 1 4 (uwifi_init w))) \<and>
   cfg_essid (ap_if (create_access_point ''Test'' (Some ''pass1234'') 4 1 4 (uwifi_init w))) =
     ''Test'' \<and>
   \<not> active (ap_if (disable_access_point
                  (create_access_point ''Test'' (Some ''pass1234'') 4 1 4 (uwifi_init w))))"
  by (simp add: uwifi_init_def create_access_point_def disable_access_point_def sta_active_def
      ap_active_def ap_config_def log_call_def print_line_def Let_def)

text \<open>
  C8. When the station reports connected (its \<open>isconnected()\<close> answers true),
  \<open>check_wifi_status\<close> returns \<open>Connected to {name} with IP {address}\<close> with the
  station's configured network name and the first field of its IP configuration;
  otherwise it returns \<open>Not connected to any network.\<close> In both cases it leaves both
  handles as they are and issues no command.
\<close>

theorem check_wifi_status_message:
  "(fst (sta_isconnected E w) \<longrightarrow>
      fst (check_wifi_status E w) =
        ''Connected to '' @ cfg_essid (sta_if w) @ '' with IP '' @
          py_str (fst (ifconfig (sta_if w))))
   \<and> (\<not> fst (sta_isconnected E w) \<longrightarrow>
      fst (check_wifi_status E w) = ''Not connected to any network.'')
   \<and> sta_if (snd (check_wifi_status E w)) = sta_if w
   \<and> ap_if (snd (check_wifi_status E w)) = ap_if w
   \<and> history (snd (check_wifi_status E w)) = history w"
  by (simp add: check_wifi_status_def is_connected_def sta_isconnected_def sta_config_essid_def
      sta_ifconfig_get_def log_call_def history_def Let_def)

theorem check_wifi_status_message_witness:
  "fst (sta_isconnected env_up (sta_connect ''home'' ''secret'' world0)) \<and>
   fst (check_wifi_status env_up (sta_connect ''home'' ''secret'' world0)) =
     ''Connected to home with IP 0.0.0.0'' \<and>
   \<not> fst (sta_isconnected env_down world0) \<and>
   fst (check_wifi_status env_down world0) = ''Not connected to any network.''"
proof -
  have a: "\<not> fst (sta_isconnected env_down world0)"
    by (simp add: sta_isconnected_def env_down_def)
  have b: "fst (sta_isconnected env_up (sta_connect ''home'' ''secret'' world0))"
    by (simp add: sta_isconnected_def sta_connect_def log_call_def env_up_def env_down_def)
  have c: "cfg_essid (sta_if (sta_connect ''home'' ''secret'' world0)) = ''home''"
    "ifconfig (sta_if (sta_connect ''home'' ''secret'' world0)) =
       (PyStr ''0.0.0.0'', PyStr ''0.0.0.0'', PyStr ''0.0.0.0'', PyStr ''0.0.0.0'')"
    by (simp_all add: sta_connect_def log_call_def world0_def wlan0_def)
  show ?thesis
    using check_wifi_status_message [of env_down world0]
      check_wifi_status_message [of env_up "sta_connect ''home'' ''secret'' world0"] a b c
    by simp
qed

text \<open>
  C9. For every host and every \<open>count \<le> 0\<close>, \<open>ping\<close> returns \<open>False\<close> and makes no call
  at all: no name resolution, no socket, no connection attempt, and both handles are as
  they were.
\<close>

theorem ping_nonpositive_count:
  assumes "count \<le> 0"
  shows "fst (ping E host count w) = False \<and>
         calls (snd (ping E host count w)) = calls w \<and>
         sta_if (snd (ping E host count w)) = sta_if w \<and>
         ap_if (snd (ping E host count w)) = ap_if w"
  using assms by (simp add: ping_def print_line_def Let_def)

theorem ping_nonpositive_count_witness:
  "(0::int) \<le> 0 \<and> fst (ping env_second ''8.8.8.8'' 0 world0) = False \<and>
   calls (snd (ping env_second ''8.8.8.8'' 0 world0)) = [] \<and>
   (- 2::int) \<le> 0 \<and> fst (ping env_second ''8.8.8.8'' (- 2) world0) = False \<and>
   calls (snd (ping env_second ''8.8.8.8'' (- 2) world0)) = []"
  using ping_nonpositive_count [of 0 env_second "''8.8.8.8''" world0]
    ping_nonpositive_count [of "- 2" env_second "''8.8.8.8''" world0]
  by (simp add: world0_def)

text \<open>
  C10. For all \<open>ip\<close>, \<open>subnet\<close> and \<open>gateway\<close>: when the \<open>dns\<close> given to
  \<open>set_static_ip\<close> is falsy, the DNS field of the station's IP configuration is set to
  \<open>gateway\<close>; the given \<open>dns\<close> is used when it is truthy, and only then. The empty
  string, \<open>0\<close>, \<open>None\<close> and \<open>False\<close> are falsy.
\<close>

theorem set_static_ip_falsy_dns:
  "(\<not> truthy dns \<longrightarrow>
      ifconfig (sta_if (set_static_ip ip subnet gateway dns w)) = (ip, subnet, gateway, gateway))
   \<and> (truthy dns \<longrightarrow>
      ifconfig (sta_if (set_static_ip ip subnet gateway dns w)) = (ip, subnet, gateway, dns))
   \<and> \<not> truthy (PyStr []) \<and> \<not> truthy (PyInt 0) \<and> \<not> truthy PyNone \<and> \<not> truthy (PyBool False)"
  by (simp add: set_static_ip_def py_or_def sta_ifconfig_set_def log_call_def print_line_def)

theorem set_static_ip_falsy_dns_witness:
  "ifconfig (sta_if (set_static_ip (PyStr ''192.168.1.50'') (PyStr ''255.255.255.0'')
       (PyStr ''192.168.1.1'') (PyStr []) world0)) =
     (PyStr ''192.168.1.50'', PyStr ''255.255.255.0'', PyStr ''192.168.1.1'', PyStr ''192.168.1.1'') \<and>
   ifconfig (sta_if (set_static_ip (PyStr ''192.168.1.50'') (PyStr ''255.255.255.0'')
       (PyStr ''192.168.1.1'') (PyInt 0) world0)) =
     (PyStr ''192.168.1.50'', PyStr ''255.255.255.0'', PyStr ''192.168.1.1'', PyStr ''192.168.1.1'') \<and>
   ifconfig (sta_if (set_static_ip (PyStr ''192.168.1.50'') (PyStr ''255.255.255.0'')
       (PyStr ''192.168.1.1'') (PyStr ''1.1.1.1'') world0)) =
     (PyStr ''192.168.1.50'', PyStr ''255.255.255.0'', PyStr ''192.168.1.1'', PyStr ''1.1.1.1'')"
  using set_static_ip_falsy_dns [of "PyStr []" "PyStr ''192.168.1.50''" "PyStr ''255.255.255.0''"
      "PyStr ''192.168.1.1''" world0]
    set_static_ip_falsy_dns [of "PyInt 0" "PyStr ''192.168.1.50''" "PyStr ''255.255.255.0''"
      "PyStr ''192.168.1.1''" world0]
    set_static_ip_falsy_dns [of "PyStr ''1.1.1.1''" "PyStr ''192.168.1.50''" "PyStr ''255.255.255.0''"
      "PyStr ''192.168.1.1''" world0]
  by simp

end
